theory Spec2Isabelle
  imports Main
begin

section \<open>JavaScript values and string operations used by the bridge\<close>

text \<open>
  The bridge (\<^verbatim>\<open>src/index.js\<close>) is a Node program. Its strings are modelled as HOL
  strings (byte lists, UTF-8); every marker the code searches for is ASCII, so searching
  and splitting on bytes agrees with JavaScript. A value that may be \<^verbatim>\<open>undefined\<close>
  or \<^verbatim>\<open>null\<close> is an \<open>option\<close>; \<open>truthy\<close> is JavaScript's truthiness of such a string
  (absent and the empty string are falsy).
\<close>

definition truthy :: "string option \<Rightarrow> bool" where
  "truthy v = (case v of None \<Rightarrow> False | Some s \<Rightarrow> s \<noteq> [])"

text \<open>\<^verbatim>\<open>a || b\<close> on possibly absent strings: the first operand when it is truthy, else the second.\<close>

definition orElse :: "string option \<Rightarrow> string option \<Rightarrow> string option" where
  "orElse a b = (if truthy a then a else b)"

definition startsWith :: "string \<Rightarrow> string \<Rightarrow> bool" where
  "startsWith s sub = (take (length sub) s = sub)"

text \<open>\<^verbatim>\<open>s.includes(sub)\<close>: \<open>sub\<close> occurs somewhere in \<open>s\<close>.\<close>

fun str_includes :: "string \<Rightarrow> string \<Rightarrow> bool" where
  "str_includes [] sub = (sub = [])"
| "str_includes (c # cs) sub = (startsWith (c # cs) sub \<or> str_includes cs sub)"

text \<open>\<^verbatim>\<open>s.split(sep)[0]\<close> for a one-character separator: everything before its first occurrence.\<close>

definition splitFirst :: "char \<Rightarrow> string \<Rightarrow> string" where
  "splitFirst sep s = takeWhile (\<lambda>c. c \<noteq> sep) s"

text \<open>\<^verbatim>\<open>s.replace(/\D/g, "")\<close>: keep the ASCII digits only.\<close>

definition stripNonDigits :: "string \<Rightarrow> string" where
  "stripNonDigits s = filter (\<lambda>c. c \<in> set ''0123456789'') s"

text \<open>Decimal rendering of a number inside a template literal.\<close>

fun showNat :: "nat \<Rightarrow> string" where
  "showNat n = (if n < 10 then [''0123456789'' ! n]
                else showNat (n div 10) @ [''0123456789'' ! (n mod 10)])"

declare showNat.simps [simp del]

definition showInt :: "int \<Rightarrow> string" where
  "showInt i = (if i < 0 then CHR ''-'' # showNat (nat (- i)) else showNat (nat i))"

text \<open>\<^verbatim>\<open>${statusCode}\<close>: an absent status code prints as \<^verbatim>\<open>undefined\<close>.\<close>

definition showCode :: "int option \<Rightarrow> string" where
  "showCode c = (case c of None \<Rightarrow> ''undefined'' | Some i \<Rightarrow> showInt i)"

definition hexDigit :: "nat \<Rightarrow> char" where
  "hexDigit n = ''0123456789ABCDEF'' ! n"

definition uriUnreserved :: "char \<Rightarrow> bool" where
  "uriUnreserved c =
     (c \<in> set ''ABCDEFGHIJKLMNOPQRSTUVWXYZabcdefghijklmnopqrstuvwxyz0123456789-_.!~*()''
      \<or> c = CHR 0x27)"

text \<open>\<^verbatim>\<open>encodeURIComponent\<close>: every byte outside the unreserved set is percent-encoded.\<close>

definition encodeURIComponent :: "string \<Rightarrow> string" where
  "encodeURIComponent s =
     concat (map (\<lambda>c. if uriUnreserved c then [c]
                        else [CHR ''%'', hexDigit (of_char c div 16), hexDigit (of_char c mod 16)]) s)"


section \<open>The credential directory\<close>

text \<open>
  \<^verbatim>\<open>authPath\<close> is one path on disk. It is absent, or something that is not a directory,
  or a directory of named entries. \<^verbatim>\<open>fs.unlinkSync\<close> removes a regular file and throws
  on a subdirectory; every modifying call throws when the process may not write there
  (\<open>writable\<close> is false). Each \<^verbatim>\<open>fs\<close> call of the source is a function returning the
  error it throws, or the file system after it.
\<close>

datatype entry_kind = RegularFile | Subdirectory

type_synonym dirent = "string \<times> entry_kind"

datatype auth_node = Absent | PlainFile | Directory "dirent list"

record filesys =
  authNode :: auth_node
  writable :: bool

datatype fs_error = ENOENT | ENOTDIR | EISDIR | EACCES | EEXIST

definition existsSync :: "filesys \<Rightarrow> bool" where
  "existsSync fs = (authNode fs \<noteq> Absent)"

definition readdirSync :: "filesys \<Rightarrow> fs_error + string list" where
  "readdirSync fs =
     (case authNode fs of
        Absent \<Rightarrow> Inl ENOENT
      | PlainFile \<Rightarrow> Inl ENOTDIR
      | Directory es \<Rightarrow> Inr (map fst es))"

definition unlinkSync :: "string \<Rightarrow> filesys \<Rightarrow> fs_error + filesys" where
  "unlinkSync f fs =
     (case authNode fs of
        Absent \<Rightarrow> Inl ENOENT
      | PlainFile \<Rightarrow> Inl ENOTDIR
      | Directory es \<Rightarrow>
          (case map_of es f of
             None \<Rightarrow> Inl ENOENT
           | Some Subdirectory \<Rightarrow> Inl EISDIR
           | Some RegularFile \<Rightarrow>
               if writable fs
               then Inr (fs\<lparr>authNode := Directory (filter (\<lambda>e. fst e \<noteq> f) es)\<rparr>)
               else Inl EACCES))"

text \<open>\<^verbatim>\<open>fs.rmSync(authPath, { recursive: true, force: true })\<close>: \<^verbatim>\<open>force\<close> ignores a missing path.\<close>

definition rmSync :: "filesys \<Rightarrow> fs_error + filesys" where
  "rmSync fs =
     (if authNode fs = Absent then Inr fs
      else if writable fs then Inr (fs\<lparr>authNode := Absent\<rparr>)
      else Inl EACCES)"

text \<open>\<^verbatim>\<open>fs.mkdirSync(authPath, { recursive: true })\<close>: an existing directory is no error.\<close>

definition mkdirSync :: "filesys \<Rightarrow> fs_error + filesys" where
  "mkdirSync fs =
     (case authNode fs of
        Absent \<Rightarrow> if writable fs then Inr (fs\<lparr>authNode := Directory []\<rparr>) else Inl EACCES
      | PlainFile \<Rightarrow> Inl EEXIST
      | Directory es \<Rightarrow> Inr fs)"

text \<open>\<^verbatim>\<open>ensureAuthFolder\<close> (lines 122-126): create the directory when nothing is there; a failure is swallowed.\<close>

definition ensureAuthFolder :: "filesys \<Rightarrow> filesys" where
  "ensureAuthFolder fs =
     (if \<not> existsSync fs
      then (case mkdirSync fs of Inl e \<Rightarrow> fs | Inr fs' \<Rightarrow> fs')
      else fs)"

text \<open>The loop of lines 133-135: each \<^verbatim>\<open>unlinkSync\<close> has its own \<^verbatim>\<open>try\<close>, whose \<^verbatim>\<open>catch\<close> is empty.\<close>

fun unlinkAll :: "string list \<Rightarrow> filesys \<Rightarrow> filesys" where
  "unlinkAll [] fs = fs"
| "unlinkAll (f # files) fs =
     unlinkAll files (case unlinkSync f fs of Inl e \<Rightarrow> fs | Inr fs' \<Rightarrow> fs')"

text \<open>The outer \<^verbatim>\<open>try\<close> block of \<^verbatim>\<open>clearAuthFolder\<close> (lines 131-136): only \<^verbatim>\<open>readdirSync\<close> can throw out of it.\<close>

definition clearListed :: "filesys \<Rightarrow> fs_error + filesys" where
  "clearListed fs =
     (if existsSync fs
      then (case readdirSync fs of
              Inl e \<Rightarrow> Inl e
            | Inr files \<Rightarrow> Inr (unlinkAll files fs))
      else Inr fs)"

text \<open>\<^verbatim>\<open>clearAuthFolder\<close> (lines 128-141): the outer \<^verbatim>\<open>catch\<close> removes the whole path, best effort; then \<^verbatim>\<open>ensureAuthFolder\<close>.\<close>

definition clearAuthFolder :: "filesys \<Rightarrow> filesys" where
  "clearAuthFolder fs =
     ensureAuthFolder
       (case clearListed fs of
          Inr fs' \<Rightarrow> fs'
        | Inl e \<Rightarrow> (case rmSync fs of Inl e2 \<Rightarrow> fs | Inr fs' \<Rightarrow> fs'))"

text \<open>An entry that \<^verbatim>\<open>clearAuthFolder\<close> cannot remove: a subdirectory, or any entry of a directory the process may not write.\<close>

definition stuck :: "filesys \<Rightarrow> dirent \<Rightarrow> bool" where
  "stuck fs e = (\<not> writable fs \<or> snd e = Subdirectory)"


text \<open>The names of a directory's entries are pairwise different.\<close>

definition distinctNames :: "filesys \<Rightarrow> bool" where
  "distinctNames fs =
     (case authNode fs of Directory es \<Rightarrow> distinct (map fst es) | Absent \<Rightarrow> True | PlainFile \<Rightarrow> True)"


section \<open>Shared state, collaborators and observable effects\<close>

text \<open>
  The module-level variables of \<^verbatim>\<open>src/index.js\<close> (lines 47-58) and the credential
  directory form the state \<open>world\<close>. Every call that leaves the process (a timer, an HTTP
  request, a call on the protocol session) is appended to \<open>effects\<close>, in the order the
  code makes them. A field of \<^verbatim>\<open>aiSettings\<close> the admin system left out is the empty
  string: the code only tests these fields for truthiness.
\<close>

record error_info =
  err_message :: string
  err_code :: "int option"

record ai_settings =
  ai_key :: string
  ai_model :: string
  ai_prompt :: string

text \<open>What the code reads of \<^verbatim>\<open>sock\<close>: \<^verbatim>\<open>sock.user.id\<close>, absent when \<^verbatim>\<open>sock.user\<close> or its \<^verbatim>\<open>id\<close> is.\<close>

record session =
  user_id :: "string option"

text \<open>
  \<open>SetTimeout ms\<close> is \<^verbatim>\<open>setTimeout(connectToWhatsApp, ms)\<close>, the only timer callback of the
  source; \<open>Sleep ms\<close> is the awaited delay of line 207; \<open>HttpGet url\<close> is \<^verbatim>\<open>axios.get(url)\<close>;
  \<open>AiRequest key model prompt message\<close> is the completion request of lines 101-112;
  \<open>SendMessage jid text\<close>, \<open>RequestPairingCode digits\<close> and \<open>Logout\<close> are the calls on \<^verbatim>\<open>sock\<close>.
\<close>

datatype effect =
    SetTimeout nat
  | Sleep nat
  | HttpGet string
  | AiRequest string string string string
  | SendMessage string string
  | RequestPairingCode string
  | Logout

record world =
  sock :: "session option"
  qrCode :: "string option"
  pairingCode :: "string option"
  isConnected :: bool
  bridgeStatus :: string
  fullErrorInfo :: "error_info option"
  apiKey :: string
  adminUrl :: string
  aiSettings :: ai_settings
  disk :: filesys
  effects :: "effect list"

text \<open>
  What the program takes from outside \<^verbatim>\<open>src/\<close>: the process id and start time, the
  library constant \<^verbatim>\<open>DisconnectReason.loggedOut\<close> (a parameter: its value is not in the
  repository), the QR encoder (taken as total: the payloads are the session's pairing
  strings), and the answers of the protocol session and of the AI provider. A session
  call resolves (\<open>Inr\<close>) or rejects with a message (\<open>Inl\<close>); a send resolves with the
  \<^verbatim>\<open>key.id\<close> of the message it has sent. \<open>aiCompletion model prompt message\<close> is \<open>None\<close>
  when the request or the reading of its answer throws.
\<close>

record env =
  PID :: nat
  startupTime :: string
  loggedOut :: int
  toDataURL :: "string \<Rightarrow> string"
  sendMessage :: "string \<Rightarrow> string \<Rightarrow> string + string"
  requestPairingCode :: "string \<Rightarrow> string + string"
  aiCompletion :: "string \<Rightarrow> string \<Rightarrow> string \<Rightarrow> string option"

definition emit :: "effect \<Rightarrow> world \<Rightarrow> world" where
  "emit e w = w\<lparr>effects := effects w @ [e]\<rparr>"

text \<open>\<^verbatim>\<open>adminUrl.includes("?") ? "&" : "?"\<close> (lines 63 and 84).\<close>

definition querySep :: "string \<Rightarrow> string" where
  "querySep url = (if str_includes url ''?'' then ''&'' else ''?'')"

definition configUrl :: "string \<Rightarrow> string \<Rightarrow> string" where
  "configUrl url k = url @ querySep url @ ''action=get_config&key='' @ k"

definition logUrl :: "string \<Rightarrow> string \<Rightarrow> string \<Rightarrow> string \<Rightarrow> string \<Rightarrow> string" where
  "logUrl url k phone msg direction =
     url @ querySep url @ ''action=log_msg&key='' @ k @ ''&phone='' @ phone
       @ ''&message='' @ encodeURIComponent msg @ ''&direction='' @ direction"

text \<open>
  \<^verbatim>\<open>fetchAiSettings\<close> (lines 60-76) up to its \<^verbatim>\<open>await\<close>: nothing without an admin URL,
  else the request is issued. Its callers do not await it; the rest of the function runs
  when the answer arrives and is \<open>fetchAiSettingsDone\<close> (\<open>None\<close>: no usable answer).
\<close>

definition fetchAiSettings :: "world \<Rightarrow> world" where
  "fetchAiSettings w =
     (if adminUrl w = [] then w
      else emit (HttpGet (configUrl (adminUrl w) (apiKey w))) w)"

definition fetchAiSettingsDone :: "ai_settings option \<Rightarrow> world \<Rightarrow> world" where
  "fetchAiSettingsDone answer w =
     (case answer of
        None \<Rightarrow> w
      | Some s \<Rightarrow> if ai_key s \<noteq> [] then w\<lparr>aiSettings := s\<rparr> else w)"

text \<open>\<^verbatim>\<open>logToWhmcs\<close> (lines 78-96) up to its \<^verbatim>\<open>await\<close>; what follows only writes to the console.\<close>

definition logToWhmcs :: "string \<Rightarrow> string \<Rightarrow> string \<Rightarrow> world \<Rightarrow> world" where
  "logToWhmcs phone msg direction w =
     (if adminUrl w = [] then w
      else emit (HttpGet (logUrl (adminUrl w) (apiKey w) phone msg direction)) w)"

text \<open>\<^verbatim>\<open>getAiReply\<close> (lines 98-118): \<^verbatim>\<open>null\<close> without a provider key or on any error.\<close>

definition getAiReply :: "env \<Rightarrow> string \<Rightarrow> world \<Rightarrow> string option \<times> world" where
  "getAiReply ev userMessage w =
     (let s = aiSettings w in
      if ai_key s = [] then (None, w)
      else
        let m = (if ai_model s = [] then ''google/gemini-2.0-flash-exp:free'' else ai_model s);
            p = (if ai_prompt s = [] then ''You are a helpful assistant.'' else ai_prompt s)
        in (aiCompletion ev m p userMessage, emit (AiRequest (ai_key s) m p userMessage) w))"

text \<open>
  A value thrown inside a handler: a \<^verbatim>\<open>TypeError\<close> for reading the named property of
  \<^verbatim>\<open>null\<close> or \<^verbatim>\<open>undefined\<close>, or the rejection of an awaited call. \<open>thrownMessage\<close> is the
  \<^verbatim>\<open>err.message\<close> the route's \<^verbatim>\<open>catch\<close> answers with (for a \<^verbatim>\<open>TypeError\<close>, on a null \<^verbatim>\<open>sock\<close>).
\<close>

datatype thrown = TypeError string | Rejected string

definition thrownMessage :: "thrown \<Rightarrow> string" where
  "thrownMessage t =
     (case t of
        TypeError prop \<Rightarrow> ''Cannot read properties of null (reading '' @ [CHR 0x27] @ prop @ [CHR 0x27] @ '')''
      | Rejected m \<Rightarrow> m)"

text \<open>
  \<^verbatim>\<open>await sock.sendMessage(jid, { text })\<close>: throws on a null \<^verbatim>\<open>sock\<close>; else the call is made,
  and resolves to \<^verbatim>\<open>result.key.id\<close> or rejects.
\<close>

definition sockSend :: "env \<Rightarrow> string \<Rightarrow> string \<Rightarrow> world \<Rightarrow> (thrown + string) \<times> world" where
  "sockSend ev jid body w =
     (case sock w of
        None \<Rightarrow> (Inl (TypeError ''sendMessage''), w)
      | Some s \<Rightarrow>
          (case sendMessage ev jid body of
             Inl m \<Rightarrow> (Inl (Rejected m), emit (SendMessage jid body) w)
           | Inr mid \<Rightarrow> (Inr mid, emit (SendMessage jid body) w)))"


section \<open>The connection lifecycle: the \<^verbatim>\<open>connection.update\<close> handler\<close>

text \<open>The fields the handler reads of an update; \<open>lastError\<close> is \<^verbatim>\<open>lastDisconnect?.error\<close>.\<close>

record boom =
  statusCode :: "int option"
  boomMessage :: "string option"

record update =
  connection :: "string option"
  lastError :: "boom option"
  qr :: "string option"

text \<open>\<^verbatim>\<open>err?.output?.statusCode\<close> and \<^verbatim>\<open>err?.message || ""\<close> (lines 187-189).\<close>

definition closeCode :: "update \<Rightarrow> int option" where
  "closeCode u = (case lastError u of None \<Rightarrow> None | Some b \<Rightarrow> statusCode b)"

definition closeReason :: "update \<Rightarrow> string" where
  "closeReason u =
     (case lastError u of
        None \<Rightarrow> []
      | Some b \<Rightarrow> (case boomMessage b of None \<Rightarrow> [] | Some m \<Rightarrow> m))"

text \<open>The condition of line 195.\<close>

definition fatalAuth :: "update \<Rightarrow> bool" where
  "fatalAuth u =
     (closeCode u = Some 401 \<or> str_includes (closeReason u) ''conflict''
      \<or> str_includes (closeReason u) ''device_removed'')"

text \<open>The \<^verbatim>\<open>close\<close> branch (lines 186-203).\<close>

definition onClose :: "env \<Rightarrow> update \<Rightarrow> world \<Rightarrow> world" where
  "onClose ev u w =
     (let w1 = w\<lparr>isConnected := False,
                 fullErrorInfo := Some \<lparr>err_message = closeReason u, err_code = closeCode u\<rparr>\<rparr>
      in if fatalAuth u
         then emit (SetTimeout 10000)
                (w1\<lparr>bridgeStatus := ''Auth Session Error. Resetting in 10s...'',
                    disk := clearAuthFolder (disk w1)\<rparr>)
         else
           let shouldReconnect = (closeCode u \<noteq> Some (loggedOut ev));
               w2 = w1\<lparr>bridgeStatus := ''Disconnected ('' @ showCode (closeCode u) @ ''). Reconnecting...''\<rparr>
           in if shouldReconnect then emit (SetTimeout 5000) w2 else w2)"

text \<open>The \<^verbatim>\<open>open\<close> branch (lines 205-215), run to its end; the settle delay is the effect \<open>Sleep\<close>.\<close>

definition onOpen :: "world \<Rightarrow> world" where
  "onOpen w =
     fetchAiSettings
       ((emit (Sleep 5000) (w\<lparr>bridgeStatus := ''Synchronizing session... Please wait 5 seconds.''\<rparr>))
          \<lparr>isConnected := True, qrCode := None, pairingCode := None, fullErrorInfo := None,
           bridgeStatus := ''Connected!''\<rparr>)"

definition onConnectionUpdate :: "env \<Rightarrow> update \<Rightarrow> world \<Rightarrow> world" where
  "onConnectionUpdate ev u w =
     (let w1 = (case qr u of
                  None \<Rightarrow> w
                | Some q \<Rightarrow>
                    if q = [] then w
                    else w\<lparr>qrCode := Some (toDataURL ev q),
                           bridgeStatus := ''QR Code Generated - SCAN or Use Pairing Code!''\<rparr>)
      in if connection u = Some ''close'' then onClose ev u w1
         else if connection u = Some ''open'' then onOpen w1
         else w1)"


section \<open>The message bridge: the \<^verbatim>\<open>messages.upsert\<close> handler\<close>

text \<open>
  The fields the handler reads of a message: \<^verbatim>\<open>msg.key.remoteJid\<close>, \<^verbatim>\<open>msg.key.fromMe\<close>,
  \<^verbatim>\<open>msg.key.senderPn\<close>, \<^verbatim>\<open>msg.key.participant\<close>, \<^verbatim>\<open>msg.participant\<close> and \<^verbatim>\<open>msg.message\<close>
  with its \<^verbatim>\<open>conversation\<close> and \<^verbatim>\<open>extendedTextMessage?.text\<close>.
\<close>

record message_content =
  conversation :: "string option"
  extendedText :: "string option"

record wa_message =
  remoteJid :: "string option"
  fromMe :: bool
  senderPn :: "string option"
  keyParticipant :: "string option"
  participant :: "string option"
  content :: "message_content option"

text \<open>A handler that is not wrapped in \<^verbatim>\<open>try\<close> returns, or throws with the state it has reached.\<close>

datatype outcome = Returned world | Threw thrown world

definition worldOf :: "outcome \<Rightarrow> world" where
  "worldOf r = (case r of Returned w \<Rightarrow> w | Threw t w \<Rightarrow> w)"

text \<open>\<^verbatim>\<open>msg.key.senderPn || msg.key.participant || msg.participant\<close> (line 234).\<close>

definition accompanyingPn :: "wa_message \<Rightarrow> string option" where
  "accompanyingPn msg = orElse (orElse (senderPn msg) (keyParticipant msg)) (participant msg)"

text \<open>Lines 230-238: the phone number of a sender.\<close>

definition resolvePhone :: "wa_message \<Rightarrow> string \<Rightarrow> string" where
  "resolvePhone msg sender =
     (let phone = splitFirst CHR ''@'' sender in
      if str_includes sender ''@lid''
      then (case accompanyingPn msg of
              None \<Rightarrow> phone
            | Some pn \<Rightarrow>
                if pn \<noteq> [] \<and> str_includes pn ''@s.whatsapp.net''
                then splitFirst CHR ''@'' pn
                else phone)
      else phone)"

text \<open>Lines 246-255: the automatic reply.\<close>

definition autoReply :: "env \<Rightarrow> string \<Rightarrow> string \<Rightarrow> string \<Rightarrow> world \<Rightarrow> outcome" where
  "autoReply ev sender phone body w =
     (if ai_key (aiSettings w) \<noteq> []
      then (case getAiReply ev body w of
              (None, w1) \<Rightarrow> Returned w1
            | (Some reply, w1) \<Rightarrow>
                if reply = [] then Returned w1
                else (case sockSend ev sender reply w1 of
                        (Inl t, w2) \<Rightarrow> Threw t w2
                      | (Inr mid, w2) \<Rightarrow> Returned (logToWhmcs phone reply ''out'' w2)))
      else Returned w)"

text \<open>
  The handler (lines 220-256). Its arguments are the batch \<^verbatim>\<open>messages\<close> and its \<^verbatim>\<open>type\<close>.
  \<^verbatim>\<open>messages[0]\<close> of an empty batch is \<^verbatim>\<open>undefined\<close>, and reading \<^verbatim>\<open>msg.message\<close> throws;
  so does \<^verbatim>\<open>sender.split\<close> on a message without \<^verbatim>\<open>remoteJid\<close>.
\<close>

definition onMessagesUpsert :: "env \<Rightarrow> wa_message list \<Rightarrow> string \<Rightarrow> world \<Rightarrow> outcome" where
  "onMessagesUpsert ev messages ty w =
     (if ty \<noteq> ''notify'' then Returned w
      else (case messages of
              [] \<Rightarrow> Threw (TypeError ''message'') w
            | msg # others \<Rightarrow>
                (case content msg of
                   None \<Rightarrow> Returned w
                 | Some c \<Rightarrow>
                     if fromMe msg then Returned w
                     else (case orElse (conversation c) (extendedText c) of
                             None \<Rightarrow> Returned w
                           | Some body \<Rightarrow>
                               if body = [] then Returned w
                               else (case remoteJid msg of
                                       None \<Rightarrow> Threw (TypeError ''split'') w
                                     | Some sender \<Rightarrow>
                                         let phone = resolvePhone msg sender
                                         in autoReply ev sender phone body
                                              (logToWhmcs phone body ''in'' w))))))"


section \<open>The control API: the wildcard route\<close>

text \<open>
  The query parameters and the header the route reads. Each is absent or one string
  (a repeated or nested query parameter, which Express parses to an array or an object,
  is outside this type).
\<close>

record request =
  action :: "string option"
  q_key :: "string option"
  q_admin_url :: "string option"
  q_phone :: "string option"
  q_to :: "string option"
  q_message :: "string option"
  referer :: "string option"

record status_snapshot =
  connected :: bool
  snap_qr :: "string option"
  pairing_code :: "string option"
  number :: "string option"
  snap_message :: string
  snap_pid :: nat
  uptime :: string
  debug :: "error_info option"

datatype body =
    StatusJson status_snapshot
  | ErrorJson string
  | PairingJson string
  | SentJson string string
  | ResetJson
  | PlainText string

record response =
  httpStatus :: nat
  payload :: body

text \<open>\<^verbatim>\<open>req.query.action || "home"\<close> (line 269).\<close>

definition actionOf :: "request \<Rightarrow> string" where
  "actionOf req = (case action req of None \<Rightarrow> ''home'' | Some a \<Rightarrow> if a = [] then ''home'' else a)"

text \<open>\<^verbatim>\<open>sock?.user?.id?.split(":")[0]\<close> (line 317).\<close>

definition ownNumber :: "world \<Rightarrow> string option" where
  "ownNumber w =
     (case sock w of
        None \<Rightarrow> None
      | Some s \<Rightarrow> (case user_id s of None \<Rightarrow> None | Some i \<Rightarrow> Some (splitFirst CHR '':'' i)))"

text \<open>The \<^verbatim>\<open>number\<close> of the status snapshot (line 299).\<close>

definition snapshotNumber :: "world \<Rightarrow> string option" where
  "snapshotNumber w =
     (case sock w of
        None \<Rightarrow> None
      | Some s \<Rightarrow>
          (case user_id s of
             None \<Rightarrow> None
           | Some i \<Rightarrow> if i = [] then None else Some (splitFirst CHR '':'' i)))"

definition snapshot :: "env \<Rightarrow> world \<Rightarrow> status_snapshot" where
  "snapshot ev w =
     \<lparr>connected = isConnected w, snap_qr = qrCode w, pairing_code = pairingCode w,
      number = snapshotNumber w, snap_message = bridgeStatus w, snap_pid = PID ev,
      uptime = startupTime ev, debug = fullErrorInfo w\<rparr>"

text \<open>Lines 273-276: adopt a supplied key that differs from the current one.\<close>

definition syncKey :: "request \<Rightarrow> world \<Rightarrow> world" where
  "syncKey req w =
     (case q_key req of
        None \<Rightarrow> w
      | Some k \<Rightarrow> if k \<noteq> [] \<and> k \<noteq> apiKey w then w\<lparr>apiKey := k\<rparr> else w)"

text \<open>Lines 279-283: adopt a supplied admin URL that differs from the current one, and fetch the AI settings.\<close>

definition linkExplicit :: "request \<Rightarrow> world \<Rightarrow> world" where
  "linkExplicit req w =
     (case q_admin_url req of
        None \<Rightarrow> w
      | Some u \<Rightarrow> if u \<noteq> [] \<and> adminUrl w \<noteq> u then fetchAiSettings (w\<lparr>adminUrl := u\<rparr>) else w)"

text \<open>Lines 286-293: without an admin URL, take one from a referrer that names the addon page.\<close>

definition linkReferer :: "request \<Rightarrow> world \<Rightarrow> world" where
  "linkReferer req w =
     (case referer req of
        None \<Rightarrow> w
      | Some r \<Rightarrow>
          if adminUrl w = [] \<and> r \<noteq> [] \<and> str_includes r ''addonmodules.php''
          then fetchAiSettings (w\<lparr>adminUrl := splitFirst CHR ''&'' r\<rparr>)
          else w)"

definition handleStatus :: "env \<Rightarrow> request \<Rightarrow> world \<Rightarrow> response \<times> world" where
  "handleStatus ev req w =
     (let w3 = linkReferer req (linkExplicit req (syncKey req w))
      in (\<lparr>httpStatus = 200, payload = StatusJson (snapshot ev w3)\<rparr>, w3))"

text \<open>Lines 307-313. A throw is caught by the route (lines 345-347) and answered with status 500.\<close>

definition handlePairing :: "env \<Rightarrow> request \<Rightarrow> world \<Rightarrow> response \<times> world" where
  "handlePairing ev req w =
     (if \<not> truthy (q_phone req)
      then (\<lparr>httpStatus = 400, payload = ErrorJson ''Phone required''\<rparr>, w)
      else (case sock w of
              None \<Rightarrow>
                (\<lparr>httpStatus = 500,
                  payload = ErrorJson (thrownMessage (TypeError ''requestPairingCode''))\<rparr>, w)
            | Some s \<Rightarrow>
                let digits = stripNonDigits (case q_phone req of None \<Rightarrow> [] | Some p \<Rightarrow> p);
                    w1 = emit (RequestPairingCode digits) w
                in (case requestPairingCode ev digits of
                      Inl m \<Rightarrow> (\<lparr>httpStatus = 500, payload = ErrorJson m\<rparr>, w1)
                    | Inr code \<Rightarrow>
                        (\<lparr>httpStatus = 200, payload = PairingJson code\<rparr>,
                         w1\<lparr>pairingCode := Some code\<rparr>))))"

text \<open>Lines 316-317: the explicit target, or for \<^verbatim>\<open>test_msg\<close> without one the bridge's own number.\<close>

definition sendTarget :: "request \<Rightarrow> world \<Rightarrow> string option" where
  "sendTarget req w =
     (if \<not> truthy (q_to req) \<and> actionOf req = ''test_msg'' then ownNumber w else q_to req)"

text \<open>\<^verbatim>\<open>req.query.message || "WHMCS Bridge Test Message"\<close> (lines 328 and 332).\<close>

definition messageText :: "request \<Rightarrow> string" where
  "messageText req =
     (case q_message req of
        None \<Rightarrow> ''WHMCS Bridge Test Message''
      | Some m \<Rightarrow> if m = [] then ''WHMCS Bridge Test Message'' else m)"

text \<open>Lines 315-335.\<close>

definition handleSend :: "env \<Rightarrow> request \<Rightarrow> world \<Rightarrow> response \<times> world" where
  "handleSend ev req w =
     (if \<not> isConnected w
      then (\<lparr>httpStatus = 500, payload = ErrorJson ''Bridge not connected''\<rparr>, w)
      else (case sendTarget req w of
              None \<Rightarrow> (\<lparr>httpStatus = 400, payload = ErrorJson ''No target number''\<rparr>, w)
            | Some target \<Rightarrow>
                if target = []
                then (\<lparr>httpStatus = 400, payload = ErrorJson ''No target number''\<rparr>, w)
                else
                  let cleanTarget = stripNonDigits target;
                      jid = cleanTarget @ ''@s.whatsapp.net''
                  in (case sockSend ev jid (messageText req) w of
                        (Inl t, w1) \<Rightarrow>
                          (\<lparr>httpStatus = 500, payload = ErrorJson (thrownMessage t)\<rparr>, w1)
                      | (Inr mid, w1) \<Rightarrow>
                          (\<lparr>httpStatus = 200, payload = SentJson jid mid\<rparr>,
                           logToWhmcs cleanTarget (messageText req) ''out'' w1))))"

text \<open>Lines 337-342: \<^verbatim>\<open>sock.logout()\<close> is called on a session that exists; what it throws is swallowed.\<close>

definition handleReset :: "world \<Rightarrow> response \<times> world" where
  "handleReset w =
     (let w1 = w\<lparr>isConnected := False, disk := clearAuthFolder (disk w)\<rparr>;
          w2 = (case sock w1 of None \<Rightarrow> w1 | Some s \<Rightarrow> emit Logout w1)
      in (\<lparr>httpStatus = 200, payload = ResetJson\<rparr>, w2))"

text \<open>The route (lines 267-348): one request, the response sent and the state after it.\<close>

definition route :: "env \<Rightarrow> request \<Rightarrow> world \<Rightarrow> response \<times> world" where
  "route ev req w =
     (let a = actionOf req in
      if a = ''status'' then handleStatus ev req w
      else if a = ''get_pairing_code'' then handlePairing ev req w
      else if a = ''send'' \<or> a = ''test_msg'' then handleSend ev req w
      else if a = ''force_reset'' then handleReset w
      else (\<lparr>httpStatus = 200,
             payload = PlainText (''Bridge running (PID '' @ showNat (PID ev) @ ''). Status: ''
                                   @ bridgeStatus w)\<rparr>, w))"


section \<open>Example inputs\<close>

text \<open>
  A process, a state, events and requests on which the theorems below are evaluated.
  \<open>exampleEnv\<close> gives \<^verbatim>\<open>DisconnectReason.loggedOut\<close> the value 401, the one it has in the
  library's enumeration.
\<close>

definition exampleEnv :: env where
  "exampleEnv =
     \<lparr>PID = 4242, startupTime = ''2024-01-01T00:00:00.000Z'', loggedOut = 401,
      toDataURL = (\<lambda>q. ''data:image/png;base64,'' @ q),
      sendMessage = (\<lambda>jid body. Inr ''3EB0C767D26A1B2C3D4E''),
      requestPairingCode = (\<lambda>p. Inr ''ABCD1234''),
      aiCompletion = (\<lambda>m p t. Some ''Hello from the assistant'')\<rparr>"

definition exampleWorld :: world where
  "exampleWorld =
     \<lparr>sock = Some \<lparr>user_id = Some ''15551234567:12@s.whatsapp.net''\<rparr>,
      qrCode = Some ''data:image/png;base64,OLD'',
      pairingCode = Some ''WXYZ9876'',
      isConnected = True,
      bridgeStatus = ''Connected!'',
      fullErrorInfo = Some \<lparr>err_message = ''Connection Closed'', err_code = Some 428\<rparr>,
      apiKey = ''your_secret_key'',
      adminUrl = [],
      aiSettings = \<lparr>ai_key = [], ai_model = [], ai_prompt = []\<rparr>,
      disk = \<lparr>authNode = Directory [(''creds.json'', RegularFile), (''pre-key-1.json'', RegularFile)],
              writable = True\<rparr>,
      effects = []\<rparr>"

definition closeUpdate :: "int option \<Rightarrow> string \<Rightarrow> update" where
  "closeUpdate c m =
     \<lparr>connection = Some ''close'',
      lastError = Some \<lparr>statusCode = c, boomMessage = Some m\<rparr>,
      qr = None\<rparr>"


definition textMessage :: "string \<Rightarrow> string \<Rightarrow> wa_message" where
  "textMessage jid body =
     \<lparr>remoteJid = Some jid, fromMe = False, senderPn = None, keyParticipant = None,
      participant = None,
      content = Some \<lparr>conversation = Some body, extendedText = None\<rparr>\<rparr>"

definition linkedWorld :: world where
  "linkedWorld = exampleWorld\<lparr>adminUrl := ''https://x.test/addon.php''\<rparr>"



definition emptyRequest :: request where
  "emptyRequest =
     \<lparr>action = None, q_key = None, q_admin_url = None, q_phone = None, q_to = None,
      q_message = None, referer = None\<rparr>"



definition statusRequest :: request where
  "statusRequest =
     emptyRequest\<lparr>action := Some ''status'', q_admin_url := Some ''https://x.test/addon.php'',
       q_key := Some ''ABC'',
       referer := Some ''https://billing.test/admin/addonmodules.php?module=wa&tab=1''\<rparr>"

definition refererRequest :: request where
  "refererRequest =
     emptyRequest\<lparr>action := Some ''status'',
       referer := Some ''https://billing.test/admin/addonmodules.php?module=wa&tab=1''\<rparr>"

definition resetRequest :: request where
  "resetRequest = emptyRequest\<lparr>action := Some ''force_reset''\<rparr>"


section \<open>Properties of the credential directory\<close>

lemma unlinkSync_writable:
  "unlinkSync f fs = Inr fs' \<Longrightarrow> writable fs' = writable fs"
  by (auto simp: unlinkSync_def split: auth_node.splits option.splits entry_kind.splits if_splits)

lemma unlinkAll_writable: "writable (unlinkAll files fs) = writable fs"
  by (induction files arbitrary: fs) (auto split: sum.splits dest: unlinkSync_writable)

lemma unlinkAll_directory:
  assumes "authNode fs = Directory es" and "distinct (map fst es)"
  shows "authNode (unlinkAll files fs) =
           Directory (filter (\<lambda>e. fst e \<notin> set files \<or> stuck fs e) es)"
  using assms
proof (induction files arbitrary: fs es)
  case Nil
  then show ?case by simp
next
  case (Cons f files)
  show ?case
  proof (cases "unlinkSync f fs")
    case (Inl err)
    have keep: "\<forall>e \<in> set es. fst e = f \<longrightarrow> stuck fs e"
    proof (intro ballI impI)
      fix e assume e: "e \<in> set es" "fst e = f"
      then have "map_of es f = Some (snd e)"
        using Cons.prems(2) by (metis map_of_eq_Some_iff prod.collapse)
      with Inl Cons.prems(1) show "stuck fs e"
        by (cases "snd e") (auto simp: unlinkSync_def stuck_def split: if_splits)
    qed
    have "authNode (unlinkAll (f # files) fs) = authNode (unlinkAll files fs)"
      using Inl by simp
    also have "\<dots> = Directory (filter (\<lambda>e. fst e \<notin> set files \<or> stuck fs e) es)"
      using Cons.IH [OF Cons.prems] .
    also have "filter (\<lambda>e. fst e \<notin> set files \<or> stuck fs e) es
                 = filter (\<lambda>e. fst e \<notin> set (f # files) \<or> stuck fs e) es"
      using keep by (intro filter_cong) auto
    finally show ?thesis .
  next
    case (Inr fs')
    let ?es' = "filter (\<lambda>e. fst e \<noteq> f) es"
    from Inr Cons.prems(1) have w: "writable fs"
      and fs': "fs' = fs\<lparr>authNode := Directory ?es'\<rparr>"
      and reg: "map_of es f = Some RegularFile"
      by (auto simp: unlinkSync_def split: option.splits entry_kind.splits if_splits)
    have gone: "\<forall>e \<in> set es. fst e = f \<longrightarrow> \<not> stuck fs e"
    proof (intro ballI impI)
      fix e assume e: "e \<in> set es" "fst e = f"
      then have "map_of es f = Some (snd e)"
        using Cons.prems(2) by (metis map_of_eq_Some_iff prod.collapse)
      with reg w show "\<not> stuck fs e" by (simp add: stuck_def)
    qed
    have d': "distinct (map fst ?es')"
      using Cons.prems(2) by (simp add: distinct_map_filter)
    have st: "stuck fs' = stuck fs"
      by (simp add: fs' stuck_def fun_eq_iff)
    have "authNode (unlinkAll (f # files) fs) = authNode (unlinkAll files fs')"
      using Inr by simp
    also have "\<dots> = Directory (filter (\<lambda>e. fst e \<notin> set files \<or> stuck fs' e) ?es')"
      by (rule Cons.IH [OF _ d']) (simp add: fs')
    also have "filter (\<lambda>e. fst e \<notin> set files \<or> stuck fs' e) ?es'
                 = filter (\<lambda>e. fst e \<notin> set (f # files) \<or> stuck fs e) es"
      unfolding st filter_filter using gone by (intro filter_cong) auto
    finally show ?thesis .
  qed
qed

lemma clearListed_directory:
  assumes "authNode fs = Directory es" and "distinct (map fst es)"
  shows "\<exists>fs'. clearListed fs = Inr fs' \<and> writable fs' = writable fs
           \<and> authNode fs' = Directory (filter (stuck fs) es)"
proof -
  have "authNode (unlinkAll (map fst es) fs) =
          Directory (filter (\<lambda>e. fst e \<notin> set (map fst es) \<or> stuck fs e) es)"
    by (rule unlinkAll_directory [OF assms])
  also have "filter (\<lambda>e. fst e \<notin> set (map fst es) \<or> stuck fs e) es = filter (stuck fs) es"
    by (intro filter_cong) auto
  finally show ?thesis
    using assms(1) by (simp add: clearListed_def existsSync_def readdirSync_def unlinkAll_writable)
qed

lemma clearAuthFolder_directory:
  assumes "authNode fs = Directory es" and "distinct (map fst es)"
  shows "authNode (clearAuthFolder fs) = Directory (filter (stuck fs) es)"
    and "writable (clearAuthFolder fs) = writable fs"
proof -
  obtain fs' where c: "clearListed fs = Inr fs'" and w: "writable fs' = writable fs"
    and n: "authNode fs' = Directory (filter (stuck fs) es)"
    using clearListed_directory [OF assms] by blast
  have "clearAuthFolder fs = fs'"
    using c n by (simp add: clearAuthFolder_def ensureAuthFolder_def existsSync_def)
  then show "authNode (clearAuthFolder fs) = Directory (filter (stuck fs) es)"
    and "writable (clearAuthFolder fs) = writable fs"
    using n w by simp_all
qed

lemma stuck_iff_unlinkSync_fails:
  assumes "authNode fs = Directory es" and "distinct (map fst es)" and "e \<in> set es"
  shows "stuck fs e \<longleftrightarrow> (\<exists>err. unlinkSync (fst e) fs = Inl err)"
proof -
  have "map_of es (fst e) = Some (snd e)"
    using assms(2,3) by (metis map_of_eq_Some_iff prod.collapse)
  then show ?thesis
    using assms(1) by (cases "snd e") (auto simp: unlinkSync_def stuck_def)
qed

lemma clearAuthFolder_absent:
  assumes "authNode fs = Absent"
  shows "authNode (clearAuthFolder fs) = (if writable fs then Directory [] else Absent)"
  using assms
  by (simp add: clearAuthFolder_def clearListed_def ensureAuthFolder_def existsSync_def
      mkdirSync_def)

lemma clearAuthFolder_plain_file:
  assumes "authNode fs = PlainFile"
  shows "authNode (clearAuthFolder fs) = (if writable fs then Directory [] else PlainFile)"
  using assms
  by (simp add: clearAuthFolder_def clearListed_def ensureAuthFolder_def existsSync_def
      readdirSync_def rmSync_def mkdirSync_def)

lemma clearAuthFolder_all_removable:
  assumes "authNode fs = Directory es" and "distinct (map fst es)" and "writable fs"
    and "\<forall>e \<in> set es. snd e = RegularFile"
  shows "authNode (clearAuthFolder fs) = Directory []"
proof -
  have "filter (stuck fs) es = []"
    using assms(3,4) by (auto simp: stuck_def filter_empty_conv)
  then show ?thesis
    using clearAuthFolder_directory(1) [OF assms(1,2)] by simp
qed


section \<open>Properties of the handlers\<close>

lemma logToWhmcs_effects:
  "effects (logToWhmcs phone msg direction w) =
     effects w @ (if adminUrl w = [] then [] else [HttpGet (logUrl (adminUrl w) (apiKey w) phone msg direction)])"
  by (simp add: logToWhmcs_def emit_def)

lemma getAiReply_effects:
  "effects (snd (getAiReply ev body w)) =
     effects w @ (if ai_key (aiSettings w) = [] then []
                  else [AiRequest (ai_key (aiSettings w))
                          (if ai_model (aiSettings w) = [] then ''google/gemini-2.0-flash-exp:free''
                           else ai_model (aiSettings w))
                          (if ai_prompt (aiSettings w) = [] then ''You are a helpful assistant.''
                           else ai_prompt (aiSettings w))
                          body])"
  by (simp add: getAiReply_def emit_def Let_def)

lemma sockSend_effects:
  "effects (snd (sockSend ev jid body w)) =
     effects w @ (case sock w of None \<Rightarrow> [] | Some s \<Rightarrow> [SendMessage jid body])"
  by (simp add: sockSend_def emit_def split: option.splits sum.splits)

lemma autoReply_effects: "\<exists>es. effects (worldOf (autoReply ev sender phone body w)) = effects w @ es"
proof (cases "ai_key (aiSettings w) = []")
  case True
  then show ?thesis by (simp add: autoReply_def worldOf_def)
next
  case False
  obtain reply w1 where g: "getAiReply ev body w = (reply, w1)"
    by (cases "getAiReply ev body w")
  from getAiReply_effects [of ev body w] g
  obtain es1 where e1: "effects w1 = effects w @ es1" by simp
  show ?thesis
  proof (cases "reply = None \<or> reply = Some []")
    case True
    then have "autoReply ev sender phone body w = Returned w1"
      using False g by (auto simp: autoReply_def)
    then show ?thesis using e1 by (simp add: worldOf_def)
  next
    case nonempty: False
    then obtain r where r: "reply = Some r" "r \<noteq> []" by (cases reply) auto
    obtain res w2 where s: "sockSend ev sender r w1 = (res, w2)"
      by (cases "sockSend ev sender r w1")
    from sockSend_effects [of ev sender r w1] s
    obtain es2 where e2: "effects w2 = effects w1 @ es2" by simp
    show ?thesis
    proof (cases res)
      case (Inl t)
      then have "autoReply ev sender phone body w = Threw t w2"
        using False g r s by (simp add: autoReply_def)
      then show ?thesis using e1 e2 by (simp add: worldOf_def)
    next
      case (Inr mid)
      then have "autoReply ev sender phone body w = Returned (logToWhmcs phone r ''out'' w2)"
        using False g r s by (simp add: autoReply_def)
      then show ?thesis using e1 e2 by (simp add: worldOf_def logToWhmcs_effects)
    qed
  qed
qed






lemma route_status: "actionOf req = ''status'' \<Longrightarrow> route ev req w = handleStatus ev req w"
  by (simp add: route_def)

lemma route_force_reset: "actionOf req = ''force_reset'' \<Longrightarrow> route ev req w = handleReset w"
  by (simp add: route_def)






section \<open>The credential store's clear operation\<close>

text \<open>
  C7, as stated, fails: a failed removal of one item does not make \<^verbatim>\<open>clearAuthFolder\<close>
  fall back to removing the whole location, and the location is not empty afterwards in
  every case. The \<^verbatim>\<open>catch\<close> around each \<^verbatim>\<open>unlinkSync\<close> is empty, so the failure never
  reaches the outer \<^verbatim>\<open>catch\<close>. Here the directory holds one credential
  file and one subdirectory; removing the subdirectory fails, no wholesale removal
  follows, and the subdirectory is still there after the clear.
\<close>

theorem clearAuthFolder_item_failure_counterexample:
  "unlinkSync ''backup''
       \<lparr>authNode = Directory [(''creds.json'', RegularFile), (''backup'', Subdirectory)],
        writable = True\<rparr> = Inl EISDIR
   \<and> authNode (clearAuthFolder
       \<lparr>authNode = Directory [(''creds.json'', RegularFile), (''backup'', Subdirectory)],
        writable = True\<rparr>) = Directory [(''backup'', Subdirectory)]
   \<and> authNode (clearAuthFolder
       \<lparr>authNode = Directory [(''creds.json'', RegularFile), (''backup'', Subdirectory)],
        writable = True\<rparr>) \<noteq> Directory []"
  by (simp add: clearAuthFolder_def clearListed_def ensureAuthFolder_def existsSync_def
      readdirSync_def unlinkSync_def)

text \<open>
  C7, amended. \<^verbatim>\<open>clearAuthFolder\<close> is total (it never throws) and best effort. On a
  directory it removes exactly the entries whose own removal succeeds and leaves every
  other entry in place, with no fallback; the wholesale removal is attempted only when
  the location exists and cannot be listed; afterwards \<^verbatim>\<open>ensureAuthFolder\<close> creates the
  location when it is missing and may be created. An entry is \<open>stuck\<close> exactly when its
  own \<^verbatim>\<open>unlinkSync\<close> throws. When every entry is removable the location ends as an
  existing, empty directory.
\<close>

theorem clearAuthFolder_best_effort:
  assumes "distinctNames fs"
  shows "authNode (clearAuthFolder fs) =
           (case authNode fs of
              Directory es \<Rightarrow> Directory (filter (stuck fs) es)
            | PlainFile \<Rightarrow> if writable fs then Directory [] else PlainFile
            | Absent \<Rightarrow> if writable fs then Directory [] else Absent)
         \<and> (\<forall>es e. authNode fs = Directory es \<and> e \<in> set es \<longrightarrow>
               (stuck fs e \<longleftrightarrow> (\<exists>err. unlinkSync (fst e) fs = Inl err)))
         \<and> (writable fs \<and> (\<exists>es. authNode fs = Directory es \<and> (\<forall>e \<in> set es. snd e = RegularFile))
              \<longrightarrow> authNode (clearAuthFolder fs) = Directory [])"
proof (cases "authNode fs")
  case Absent
  then show ?thesis by (simp add: clearAuthFolder_absent)
next
  case PlainFile
  then show ?thesis by (simp add: clearAuthFolder_plain_file)
next
  case (Directory es)
  then have d: "distinct (map fst es)"
    using assms by (simp add: distinctNames_def)
  have fails: "stuck fs e \<longleftrightarrow> (\<exists>err. unlinkSync (fst e) fs = Inl err)" if "e \<in> set es" for e
    using that by (rule stuck_iff_unlinkSync_fails [OF Directory d])
  have result: "authNode (clearAuthFolder fs) = Directory (filter (stuck fs) es)"
    by (rule clearAuthFolder_directory(1) [OF Directory d])
  have empty: "authNode (clearAuthFolder fs) = Directory []"
    if "writable fs" "\<forall>e \<in> set es. snd e = RegularFile"
    using that by (intro clearAuthFolder_all_removable [OF Directory d])
  show ?thesis
    using Directory result fails empty by auto
qed

theorem clearAuthFolder_best_effort_witness:
  "distinctNames \<lparr>authNode = Directory [(''creds.json'', RegularFile), (''pre-key-1.json'', RegularFile)],
                  writable = True\<rparr>
   \<and> authNode (clearAuthFolder
        \<lparr>authNode = Directory [(''creds.json'', RegularFile), (''pre-key-1.json'', RegularFile)],
         writable = True\<rparr>) = Directory []"
proof -
  have d: "distinctNames \<lparr>authNode = Directory [(''creds.json'', RegularFile), (''pre-key-1.json'', RegularFile)],
                  writable = True\<rparr>"
    by (simp add: distinctNames_def)
  show ?thesis
    using d clearAuthFolder_best_effort [OF d] by (simp add: stuck_def)
qed


section \<open>Connection-close events\<close>

text \<open>
  C1. A close event whose status code is 401, or whose message contains \<^verbatim>\<open>conflict\<close> or
  \<^verbatim>\<open>device_removed\<close>, makes the handler run \<^verbatim>\<open>clearAuthFolder\<close> on the credential
  directory and then schedule \<^verbatim>\<open>connectToWhatsApp\<close> after 10000 ms. The timer is the only
  effect the handler adds: the connection attempt itself starts later, from the state
  in which the directory has been cleared. On a writable directory of regular files the
  clear leaves the directory empty.
\<close>

theorem close_fatal_auth_clears_then_schedules:
  assumes "connection u = Some ''close''"
    and "closeCode u = Some 401 \<or> str_includes (closeReason u) ''conflict''
         \<or> str_includes (closeReason u) ''device_removed''"
  shows "disk (onConnectionUpdate ev u w) = clearAuthFolder (disk w)
       \<and> effects (onConnectionUpdate ev u w) = effects w @ [SetTimeout 10000]
       \<and> bridgeStatus (onConnectionUpdate ev u w) = ''Auth Session Error. Resetting in 10s...''
       \<and> (writable (disk w) \<and> distinctNames (disk w)
            \<and> (\<exists>es. authNode (disk w) = Directory es \<and> (\<forall>e \<in> set es. snd e = RegularFile))
           \<longrightarrow> authNode (disk (onConnectionUpdate ev u w)) = Directory [])"
proof -
  have f: "fatalAuth u" using assms(2) by (simp add: fatalAuth_def)
  have d: "disk (onConnectionUpdate ev u w) = clearAuthFolder (disk w)"
    using assms(1) f
    by (auto simp: onConnectionUpdate_def onClose_def emit_def Let_def split: option.splits)
  have e: "effects (onConnectionUpdate ev u w) = effects w @ [SetTimeout 10000]"
    using assms(1) f
    by (auto simp: onConnectionUpdate_def onClose_def emit_def Let_def split: option.splits)
  have b: "bridgeStatus (onConnectionUpdate ev u w) = ''Auth Session Error. Resetting in 10s...''"
    using assms(1) f
    by (auto simp: onConnectionUpdate_def onClose_def emit_def Let_def split: option.splits)
  have c: "authNode (clearAuthFolder (disk w)) = Directory []"
    if "writable (disk w)" "distinctNames (disk w)" "authNode (disk w) = Directory es"
      "\<forall>e \<in> set es. snd e = RegularFile" for es
    using that clearAuthFolder_all_removable [of "disk w" es] by (simp add: distinctNames_def)
  show ?thesis using d e b c by auto
qed

theorem close_fatal_auth_witness:
  "connection (closeUpdate (Some 401) ''Connection Failure'') = Some ''close''
   \<and> closeCode (closeUpdate (Some 401) ''Connection Failure'') = Some 401
   \<and> disk (onConnectionUpdate exampleEnv (closeUpdate (Some 401) ''Connection Failure'') exampleWorld)
       = \<lparr>authNode = Directory [], writable = True\<rparr>
   \<and> effects (onConnectionUpdate exampleEnv (closeUpdate (Some 401) ''Connection Failure'') exampleWorld)
       = [SetTimeout 10000]"
proof -
  have c: "connection (closeUpdate (Some 401) ''Connection Failure'') = Some ''close''"
    by (simp add: closeUpdate_def)
  have k: "closeCode (closeUpdate (Some 401) ''Connection Failure'') = Some 401"
    by (simp add: closeUpdate_def closeCode_def)
  have cl: "clearAuthFolder (disk exampleWorld) = \<lparr>authNode = Directory [], writable = True\<rparr>"
    by (simp add: exampleWorld_def clearAuthFolder_def clearListed_def ensureAuthFolder_def
        existsSync_def readdirSync_def unlinkSync_def)
  have e: "effects exampleWorld = []" by (simp add: exampleWorld_def)
  from close_fatal_auth_clears_then_schedules [OF c disjI1 [OF k], of exampleEnv exampleWorld]
  show ?thesis using c k cl e by simp
qed




text \<open>
  C3. A close event that is neither fatal-auth nor of status code
  \<^verbatim>\<open>DisconnectReason.loggedOut\<close> schedules \<^verbatim>\<open>connectToWhatsApp\<close> after 5000 ms and leaves
  the credential directory exactly as it was.
\<close>

theorem close_transient_reconnects_keeps_credentials:
  assumes "connection u = Some ''close''"
    and "\<not> fatalAuth u"
    and "closeCode u \<noteq> Some (loggedOut ev)"
  shows "effects (onConnectionUpdate ev u w) = effects w @ [SetTimeout 5000]
       \<and> disk (onConnectionUpdate ev u w) = disk w
       \<and> bridgeStatus (onConnectionUpdate ev u w)
           = ''Disconnected ('' @ showCode (closeCode u) @ ''). Reconnecting...''"
  using assms
  by (auto simp: onConnectionUpdate_def onClose_def emit_def Let_def split: option.splits)

theorem close_transient_witness:
  "connection (closeUpdate (Some 428) ''Connection Closed'') = Some ''close''
   \<and> \<not> fatalAuth (closeUpdate (Some 428) ''Connection Closed'')
   \<and> closeCode (closeUpdate (Some 428) ''Connection Closed'') \<noteq> Some (loggedOut exampleEnv)
   \<and> effects (onConnectionUpdate exampleEnv (closeUpdate (Some 428) ''Connection Closed'') exampleWorld)
       = [SetTimeout 5000]
   \<and> disk (onConnectionUpdate exampleEnv (closeUpdate (Some 428) ''Connection Closed'') exampleWorld)
       = disk exampleWorld
   \<and> bridgeStatus (onConnectionUpdate exampleEnv (closeUpdate (Some 428) ''Connection Closed'') exampleWorld)
       = ''Disconnected (428). Reconnecting...''"
proof -
  have c: "connection (closeUpdate (Some 428) ''Connection Closed'') = Some ''close''"
    by (simp add: closeUpdate_def)
  have n: "\<not> fatalAuth (closeUpdate (Some 428) ''Connection Closed'')"
    by (simp add: fatalAuth_def closeUpdate_def closeCode_def closeReason_def startsWith_def)
  have k: "closeCode (closeUpdate (Some 428) ''Connection Closed'') \<noteq> Some (loggedOut exampleEnv)"
    by (simp add: closeUpdate_def closeCode_def exampleEnv_def)
  have e: "effects exampleWorld = []" by (simp add: exampleWorld_def)
  have s: "showCode (closeCode (closeUpdate (Some 428) ''Connection Closed'')) = ''428''"
    by (simp add: closeUpdate_def closeCode_def showCode_def showInt_def showNat.simps)
  from close_transient_reconnects_keeps_credentials [OF c n k, of exampleWorld]
  show ?thesis using c n k e s by simp
qed


section \<open>Inbound message batches\<close>

text \<open>
  C4, as stated, fails: not every message of a \<^verbatim>\<open>notify\<close> batch which carries text and
  is not self-originated is processed. The handler reads \<^verbatim>\<open>messages[0]\<close> only (line 222)
  and has no loop. In a batch of two such messages the
  only effect is the log request for the first; the second, which on its own is logged,
  leaves no trace.
\<close>

theorem upsert_two_messages_counterexample:
  "effects (worldOf (onMessagesUpsert exampleEnv
       [textMessage ''15550001111@s.whatsapp.net'' ''first'',
        textMessage ''15550002222@s.whatsapp.net'' ''second''] ''notify'' linkedWorld))
     = [HttpGet ''https://x.test/addon.php?action=log_msg&key=your_secret_key&phone=15550001111&message=first&direction=in'']
   \<and> effects (worldOf (onMessagesUpsert exampleEnv
       [textMessage ''15550002222@s.whatsapp.net'' ''second''] ''notify'' linkedWorld))
     = [HttpGet ''https://x.test/addon.php?action=log_msg&key=your_secret_key&phone=15550002222&message=second&direction=in'']"
  by (simp add: onMessagesUpsert_def textMessage_def linkedWorld_def exampleWorld_def exampleEnv_def
      orElse_def truthy_def resolvePhone_def splitFirst_def startsWith_def autoReply_def
      logToWhmcs_def logUrl_def querySep_def emit_def worldOf_def encodeURIComponent_def
      uriUnreserved_def)

text \<open>
  C4, amended. A batch that is not tagged \<^verbatim>\<open>notify\<close> is ignored entirely. In a batch
  tagged \<^verbatim>\<open>notify\<close> only the first message is examined, and what the handler does is
  what it does on that message alone: when the first message has a content, is not
  self-originated, carries a non-empty text and has a sender identifier, it is handed to
  \<^verbatim>\<open>logToWhmcs\<close> (which issues the log request when an admin URL is linked) and then
  considered for an AI reply; the other messages of the batch are ignored.
\<close>

theorem upsert_examines_first_message_only:
  "(ty \<noteq> ''notify'' \<longrightarrow> onMessagesUpsert ev messages ty w = Returned w)
   \<and> onMessagesUpsert ev (msg # others) ''notify'' w = onMessagesUpsert ev [msg] ''notify'' w
   \<and> (content msg = Some c \<and> \<not> fromMe msg
        \<and> orElse (conversation c) (extendedText c) = Some body \<and> body \<noteq> []
        \<and> remoteJid msg = Some sender
      \<longrightarrow> onMessagesUpsert ev (msg # others) ''notify'' w
            = autoReply ev sender (resolvePhone msg sender) body
                (logToWhmcs (resolvePhone msg sender) body ''in'' w)
          \<and> (\<exists>es. effects (worldOf (onMessagesUpsert ev (msg # others) ''notify'' w))
                = effects w
                  @ (if adminUrl w = [] then []
                     else [HttpGet (logUrl (adminUrl w) (apiKey w) (resolvePhone msg sender) body ''in'')])
                  @ es))"
proof (intro conjI impI)
  show "onMessagesUpsert ev messages ty w = Returned w" if "ty \<noteq> ''notify''"
    using that by (simp add: onMessagesUpsert_def)
  show "onMessagesUpsert ev (msg # others) ''notify'' w = onMessagesUpsert ev [msg] ''notify'' w"
    by (simp add: onMessagesUpsert_def)
  assume a: "content msg = Some c \<and> \<not> fromMe msg
        \<and> orElse (conversation c) (extendedText c) = Some body \<and> body \<noteq> []
        \<and> remoteJid msg = Some sender"
  then show eq: "onMessagesUpsert ev (msg # others) ''notify'' w
            = autoReply ev sender (resolvePhone msg sender) body
                (logToWhmcs (resolvePhone msg sender) body ''in'' w)"
    by (simp add: onMessagesUpsert_def Let_def)
  obtain es where "effects (worldOf (autoReply ev sender (resolvePhone msg sender) body
                (logToWhmcs (resolvePhone msg sender) body ''in'' w)))
       = effects (logToWhmcs (resolvePhone msg sender) body ''in'' w) @ es"
    using autoReply_effects by blast
  then show "\<exists>es. effects (worldOf (onMessagesUpsert ev (msg # others) ''notify'' w))
                = effects w
                  @ (if adminUrl w = [] then []
                     else [HttpGet (logUrl (adminUrl w) (apiKey w) (resolvePhone msg sender) body ''in'')])
                  @ es"
    unfolding eq by (simp add: logToWhmcs_effects)
qed

theorem upsert_first_message_witness:
  "onMessagesUpsert exampleEnv [textMessage ''15550001111@s.whatsapp.net'' ''first''] ''append'' linkedWorld
     = Returned linkedWorld
   \<and> onMessagesUpsert exampleEnv
       [textMessage ''15550001111@s.whatsapp.net'' ''first'',
        textMessage ''15550002222@s.whatsapp.net'' ''second''] ''notify'' linkedWorld
     = onMessagesUpsert exampleEnv [textMessage ''15550001111@s.whatsapp.net'' ''first''] ''notify'' linkedWorld
   \<and> onMessagesUpsert exampleEnv
       [textMessage ''15550001111@s.whatsapp.net'' ''first'',
        textMessage ''15550002222@s.whatsapp.net'' ''second''] ''notify'' linkedWorld
     = Returned (linkedWorld\<lparr>effects := [HttpGet ''https://x.test/addon.php?action=log_msg&key=your_secret_key&phone=15550001111&message=first&direction=in'']\<rparr>)"
proof -
  let ?m = "textMessage ''15550001111@s.whatsapp.net'' ''first''"
  let ?c = "\<lparr>conversation = Some ''first'', extendedText = None\<rparr>"
  have h: "content ?m = Some ?c \<and> \<not> fromMe ?m
        \<and> orElse (conversation ?c) (extendedText ?c) = Some ''first'' \<and> ''first'' \<noteq> []
        \<and> remoteJid ?m = Some ''15550001111@s.whatsapp.net''"
    by (simp add: textMessage_def orElse_def truthy_def)
  have n: "''append'' \<noteq> ''notify''" by simp
  have r: "autoReply exampleEnv ''15550001111@s.whatsapp.net''
             (resolvePhone ?m ''15550001111@s.whatsapp.net'') ''first''
             (logToWhmcs (resolvePhone ?m ''15550001111@s.whatsapp.net'') ''first'' ''in'' linkedWorld)
           = Returned (linkedWorld\<lparr>effects := [HttpGet ''https://x.test/addon.php?action=log_msg&key=your_secret_key&phone=15550001111&message=first&direction=in'']\<rparr>)"
    by (simp add: textMessage_def linkedWorld_def exampleWorld_def
      resolvePhone_def splitFirst_def startsWith_def autoReply_def
      logToWhmcs_def logUrl_def querySep_def emit_def encodeURIComponent_def
      uriUnreserved_def)
  note t = upsert_examines_first_message_only [of "''append''" exampleEnv
      "[?m]" linkedWorld ?m "[textMessage ''15550002222@s.whatsapp.net'' ''second'']" ?c
      "''first''" "''15550001111@s.whatsapp.net''"]
  have a: "onMessagesUpsert exampleEnv [?m] ''append'' linkedWorld = Returned linkedWorld"
    by (rule t [THEN conjunct1, THEN mp, OF n])
  have b: "onMessagesUpsert exampleEnv
       [?m, textMessage ''15550002222@s.whatsapp.net'' ''second''] ''notify'' linkedWorld
     = onMessagesUpsert exampleEnv [?m] ''notify'' linkedWorld"
    by (rule t [THEN conjunct2, THEN conjunct1])
  have c0: "onMessagesUpsert exampleEnv
       [?m, textMessage ''15550002222@s.whatsapp.net'' ''second''] ''notify'' linkedWorld
     = autoReply exampleEnv ''15550001111@s.whatsapp.net''
             (resolvePhone ?m ''15550001111@s.whatsapp.net'') ''first''
             (logToWhmcs (resolvePhone ?m ''15550001111@s.whatsapp.net'') ''first'' ''in'' linkedWorld)"
    by (rule t [THEN conjunct2, THEN conjunct2, THEN mp, OF h, THEN conjunct1])
  have c: "onMessagesUpsert exampleEnv
       [?m, textMessage ''15550002222@s.whatsapp.net'' ''second''] ''notify'' linkedWorld
     = Returned (linkedWorld\<lparr>effects := [HttpGet ''https://x.test/addon.php?action=log_msg&key=your_secret_key&phone=15550001111&message=first&direction=in'']\<rparr>)"
    unfolding c0 by (rule r)
  show ?thesis by (intro conjI a b c)
qed




section \<open>The control API\<close>







text \<open>
  C8. A \<^verbatim>\<open>status\<close> request that supplies an admin URL and a key while no admin URL is
  set makes the bridge adopt both and issue the AI-settings request, with the new key. A
  supplied admin URL always ends up as the admin URL, whatever the referrer; without a
  supplied one the referrer is used only when no admin URL is set and the referrer
  contains \<^verbatim>\<open>addonmodules.php\<close>.
\<close>

theorem status_links_admin:
  assumes "actionOf req = ''status''"
  shows "(\<forall>u k. adminUrl w = [] \<and> q_admin_url req = Some u \<and> u \<noteq> []
                \<and> q_key req = Some k \<and> k \<noteq> []
            \<longrightarrow> adminUrl (snd (route ev req w)) = u \<and> apiKey (snd (route ev req w)) = k
                \<and> effects (snd (route ev req w)) = effects w @ [HttpGet (configUrl u k)])
       \<and> (\<forall>u. q_admin_url req = Some u \<and> u \<noteq> [] \<longrightarrow> adminUrl (snd (route ev req w)) = u)
       \<and> (\<not> truthy (q_admin_url req) \<longrightarrow>
            adminUrl (snd (route ev req w))
              = (case referer req of
                   None \<Rightarrow> adminUrl w
                 | Some r \<Rightarrow>
                     if adminUrl w = [] \<and> r \<noteq> [] \<and> str_includes r ''addonmodules.php''
                     then splitFirst CHR ''&'' r else adminUrl w))"
proof -
  have first: "adminUrl (snd (route ev req w)) = u \<and> apiKey (snd (route ev req w)) = k
                \<and> effects (snd (route ev req w)) = effects w @ [HttpGet (configUrl u k)]"
    if "adminUrl w = [] \<and> q_admin_url req = Some u \<and> u \<noteq> [] \<and> q_key req = Some k \<and> k \<noteq> []"
    for u k
    using that
    by (auto simp: route_status [OF assms] handleStatus_def syncKey_def linkExplicit_def
        linkReferer_def fetchAiSettings_def emit_def Let_def split: option.splits)
  have explicit: "adminUrl (snd (route ev req w)) = u"
    if "q_admin_url req = Some u \<and> u \<noteq> []" for u
    using that
    by (auto simp: route_status [OF assms] handleStatus_def syncKey_def linkExplicit_def
        linkReferer_def fetchAiSettings_def emit_def Let_def split: option.splits)
  have inferred: "adminUrl (snd (route ev req w))
              = (case referer req of
                   None \<Rightarrow> adminUrl w
                 | Some r \<Rightarrow>
                     if adminUrl w = [] \<and> r \<noteq> [] \<and> str_includes r ''addonmodules.php''
                     then splitFirst CHR ''&'' r else adminUrl w)"
    if "\<not> truthy (q_admin_url req)"
    using that
    by (auto simp: route_status [OF assms] handleStatus_def syncKey_def linkExplicit_def
        linkReferer_def fetchAiSettings_def emit_def truthy_def Let_def split: option.splits)
  show ?thesis using first explicit inferred by blast
qed


theorem status_links_admin_witness:
  "actionOf statusRequest = ''status''
   \<and> adminUrl exampleWorld = []
   \<and> adminUrl (snd (route exampleEnv statusRequest exampleWorld)) = ''https://x.test/addon.php''
   \<and> apiKey (snd (route exampleEnv statusRequest exampleWorld)) = ''ABC''
   \<and> effects (snd (route exampleEnv statusRequest exampleWorld))
       = [HttpGet ''https://x.test/addon.php?action=get_config&key=ABC'']
   \<and> adminUrl (snd (route exampleEnv refererRequest exampleWorld))
       = ''https://billing.test/admin/addonmodules.php?module=wa''"
proof -
  have a: "actionOf statusRequest = ''status''"
    by (simp add: statusRequest_def emptyRequest_def actionOf_def)
  have b: "actionOf refererRequest = ''status''"
    by (simp add: refererRequest_def emptyRequest_def actionOf_def)
  have z: "adminUrl exampleWorld = []" "effects exampleWorld = []"
    by (simp_all add: exampleWorld_def)
  have h: "adminUrl exampleWorld = [] \<and> q_admin_url statusRequest = Some ''https://x.test/addon.php''
        \<and> ''https://x.test/addon.php'' \<noteq> [] \<and> q_key statusRequest = Some ''ABC'' \<and> ''ABC'' \<noteq> []"
    by (simp add: exampleWorld_def statusRequest_def emptyRequest_def)
  have c: "configUrl ''https://x.test/addon.php'' ''ABC'' = ''https://x.test/addon.php?action=get_config&key=ABC''"
    by (simp add: configUrl_def querySep_def startsWith_def)
  note first = status_links_admin [OF a, THEN conjunct1, rule_format, OF h, of exampleEnv]
  have n: "\<not> truthy (q_admin_url refererRequest)"
    by (simp add: refererRequest_def emptyRequest_def truthy_def)
  have r: "adminUrl (snd (route exampleEnv refererRequest exampleWorld))
       = ''https://billing.test/admin/addonmodules.php?module=wa''"
    using status_links_admin [OF b, THEN conjunct2, THEN conjunct2, THEN mp, OF n, of exampleEnv exampleWorld]
    by (simp add: refererRequest_def emptyRequest_def z startsWith_def splitFirst_def)
  show ?thesis using a z(1) first r unfolding c z by simp
qed

text \<open>
  C9. A \<^verbatim>\<open>force_reset\<close> request clears the connected flag and runs \<^verbatim>\<open>clearAuthFolder\<close>;
  the QR code, the pairing code, the last error, the status message, the admin URL, the
  API key, the AI settings and the session variable keep their values, so that a
  \<^verbatim>\<open>status\<close> request that follows answers with the old QR code, pairing code, error and
  status message.
\<close>

theorem force_reset_frame:
  assumes "actionOf req = ''force_reset''"
  shows "isConnected (snd (route ev req w)) = False
       \<and> disk (snd (route ev req w)) = clearAuthFolder (disk w)
       \<and> qrCode (snd (route ev req w)) = qrCode w
       \<and> pairingCode (snd (route ev req w)) = pairingCode w
       \<and> fullErrorInfo (snd (route ev req w)) = fullErrorInfo w
       \<and> bridgeStatus (snd (route ev req w)) = bridgeStatus w
       \<and> adminUrl (snd (route ev req w)) = adminUrl w
       \<and> apiKey (snd (route ev req w)) = apiKey w
       \<and> aiSettings (snd (route ev req w)) = aiSettings w
       \<and> sock (snd (route ev req w)) = sock w
       \<and> (writable (disk w) \<and> distinctNames (disk w)
            \<and> (\<exists>es. authNode (disk w) = Directory es \<and> (\<forall>e \<in> set es. snd e = RegularFile))
           \<longrightarrow> authNode (disk (snd (route ev req w))) = Directory [])
       \<and> (\<forall>sreq. actionOf sreq = ''status'' \<longrightarrow>
            (\<exists>snap. fst (route ev sreq (snd (route ev req w)))
                      = \<lparr>httpStatus = 200, payload = StatusJson snap\<rparr>
                   \<and> connected snap = False
                   \<and> snap_qr snap = qrCode w
                   \<and> pairing_code snap = pairingCode w
                   \<and> debug snap = fullErrorInfo w
                   \<and> snap_message snap = bridgeStatus w))"
proof -
  let ?w' = "snd (route ev req w)"
  have w': "?w' = snd (handleReset w)" by (simp add: route_force_reset [OF assms])
  have frame: "isConnected ?w' = False" "disk ?w' = clearAuthFolder (disk w)"
    "qrCode ?w' = qrCode w" "pairingCode ?w' = pairingCode w"
    "fullErrorInfo ?w' = fullErrorInfo w" "bridgeStatus ?w' = bridgeStatus w"
    "adminUrl ?w' = adminUrl w" "apiKey ?w' = apiKey w" "aiSettings ?w' = aiSettings w"
    "sock ?w' = sock w"
    unfolding w' by (simp_all add: handleReset_def emit_def Let_def split: option.splits)
  have status: "\<exists>snap. fst (route ev sreq ?w') = \<lparr>httpStatus = 200, payload = StatusJson snap\<rparr>
                   \<and> connected snap = False \<and> snap_qr snap = qrCode w
                   \<and> pairing_code snap = pairingCode w \<and> debug snap = fullErrorInfo w
                   \<and> snap_message snap = bridgeStatus w"
    if s: "actionOf sreq = ''status''" for sreq
  proof -
    let ?w3 = "linkReferer sreq (linkExplicit sreq (syncKey sreq ?w'))"
    have keep: "isConnected ?w3 = isConnected ?w'" "qrCode ?w3 = qrCode ?w'"
      "pairingCode ?w3 = pairingCode ?w'" "fullErrorInfo ?w3 = fullErrorInfo ?w'"
      "bridgeStatus ?w3 = bridgeStatus ?w'"
      by (simp_all add: linkReferer_def linkExplicit_def syncKey_def fetchAiSettings_def emit_def
          split: option.splits)
    have "fst (route ev sreq ?w') = \<lparr>httpStatus = 200, payload = StatusJson (snapshot ev ?w3)\<rparr>"
      by (simp add: route_status [OF s] handleStatus_def Let_def)
    moreover have "connected (snapshot ev ?w3) = False" "snap_qr (snapshot ev ?w3) = qrCode w"
      "pairing_code (snapshot ev ?w3) = pairingCode w" "debug (snapshot ev ?w3) = fullErrorInfo w"
      "snap_message (snapshot ev ?w3) = bridgeStatus w"
      using keep frame by (simp_all add: snapshot_def)
    ultimately show ?thesis by blast
  qed
  have cleared: "authNode (disk ?w') = Directory []"
    if "writable (disk w)" "distinctNames (disk w)" "authNode (disk w) = Directory es"
      "\<forall>e \<in> set es. snd e = RegularFile" for es
    using that clearAuthFolder_all_removable [of "disk w" es] frame(2)
    by (simp add: distinctNames_def)
  show ?thesis using frame status cleared by blast
qed


theorem force_reset_frame_witness:
  "actionOf resetRequest = ''force_reset''
   \<and> isConnected exampleWorld
   \<and> isConnected (snd (route exampleEnv resetRequest exampleWorld)) = False
   \<and> authNode (disk (snd (route exampleEnv resetRequest exampleWorld))) = Directory []
   \<and> qrCode (snd (route exampleEnv resetRequest exampleWorld)) = Some ''data:image/png;base64,OLD''
   \<and> pairingCode (snd (route exampleEnv resetRequest exampleWorld)) = Some ''WXYZ9876''
   \<and> fullErrorInfo (snd (route exampleEnv resetRequest exampleWorld))
       = Some \<lparr>err_message = ''Connection Closed'', err_code = Some 428\<rparr>
   \<and> payload (fst (route exampleEnv refererRequest (snd (route exampleEnv resetRequest exampleWorld))))
       = StatusJson \<lparr>connected = False, snap_qr = Some ''data:image/png;base64,OLD'',
                     pairing_code = Some ''WXYZ9876'', number = Some ''15551234567'',
                     snap_message = ''Connected!'', snap_pid = 4242,
                     uptime = ''2024-01-01T00:00:00.000Z'',
                     debug = Some \<lparr>err_message = ''Connection Closed'', err_code = Some 428\<rparr>\<rparr>"
proof -
  have a: "actionOf resetRequest = ''force_reset''"
    by (simp add: resetRequest_def emptyRequest_def actionOf_def)
  have b: "actionOf refererRequest = ''status''"
    by (simp add: refererRequest_def emptyRequest_def actionOf_def)
  note t0 = force_reset_frame [OF a, of exampleEnv exampleWorld]
  have t: "isConnected (snd (route exampleEnv resetRequest exampleWorld)) = False"
    "disk (snd (route exampleEnv resetRequest exampleWorld)) = clearAuthFolder (disk exampleWorld)"
    "qrCode (snd (route exampleEnv resetRequest exampleWorld)) = qrCode exampleWorld"
    "pairingCode (snd (route exampleEnv resetRequest exampleWorld)) = pairingCode exampleWorld"
    "fullErrorInfo (snd (route exampleEnv resetRequest exampleWorld)) = fullErrorInfo exampleWorld"
    "sock (snd (route exampleEnv resetRequest exampleWorld)) = sock exampleWorld"
    using t0 by blast+
  have st: "\<forall>sreq. actionOf sreq = ''status'' \<longrightarrow>
            (\<exists>snap. fst (route exampleEnv sreq (snd (route exampleEnv resetRequest exampleWorld)))
                      = \<lparr>httpStatus = 200, payload = StatusJson snap\<rparr>
                   \<and> connected snap = False
                   \<and> snap_qr snap = qrCode exampleWorld
                   \<and> pairing_code snap = pairingCode exampleWorld
                   \<and> debug snap = fullErrorInfo exampleWorld
                   \<and> snap_message snap = bridgeStatus exampleWorld)"
    using t0 by blast
  have cl: "authNode (clearAuthFolder (disk exampleWorld)) = Directory []"
    by (simp add: exampleWorld_def clearAuthFolder_def clearListed_def ensureAuthFolder_def
        existsSync_def readdirSync_def unlinkSync_def)
  have w: "isConnected exampleWorld" "qrCode exampleWorld = Some ''data:image/png;base64,OLD''"
    "pairingCode exampleWorld = Some ''WXYZ9876''" "bridgeStatus exampleWorld = ''Connected!''"
    "fullErrorInfo exampleWorld = Some \<lparr>err_message = ''Connection Closed'', err_code = Some 428\<rparr>"
    "sock exampleWorld = Some \<lparr>user_id = Some ''15551234567:12@s.whatsapp.net''\<rparr>"
    by (simp_all add: exampleWorld_def)
  have pid: "PID exampleEnv = 4242" "startupTime exampleEnv = ''2024-01-01T00:00:00.000Z''"
    by (simp_all add: exampleEnv_def)
  from st b obtain snap where
    s: "fst (route exampleEnv refererRequest (snd (route exampleEnv resetRequest exampleWorld)))
          = \<lparr>httpStatus = 200, payload = StatusJson snap\<rparr>"
      "connected snap = False" "snap_qr snap = qrCode exampleWorld"
      "pairing_code snap = pairingCode exampleWorld" "debug snap = fullErrorInfo exampleWorld"
      "snap_message snap = bridgeStatus exampleWorld"
    by blast
  let ?w3 = "linkReferer refererRequest (linkExplicit refererRequest
               (syncKey refererRequest (snd (route exampleEnv resetRequest exampleWorld))))"
  have "fst (route exampleEnv refererRequest (snd (route exampleEnv resetRequest exampleWorld)))
          = \<lparr>httpStatus = 200, payload = StatusJson (snapshot exampleEnv ?w3)\<rparr>"
    by (simp add: route_status [OF b] handleStatus_def Let_def)
  with s(1) have snap: "snap = snapshot exampleEnv ?w3" by simp
  have sk: "sock ?w3 = sock exampleWorld"
    using t by (simp add: linkReferer_def linkExplicit_def syncKey_def fetchAiSettings_def emit_def
          split: option.splits)
  have rest: "number snap = Some ''15551234567''" "snap_pid snap = 4242"
    "uptime snap = ''2024-01-01T00:00:00.000Z''"
    unfolding snap by (simp_all add: snapshot_def snapshotNumber_def sk w pid splitFirst_def)
  have full: "snap = \<lparr>connected = False, snap_qr = Some ''data:image/png;base64,OLD'',
                     pairing_code = Some ''WXYZ9876'', number = Some ''15551234567'',
                     snap_message = ''Connected!'', snap_pid = 4242,
                     uptime = ''2024-01-01T00:00:00.000Z'',
                     debug = Some \<lparr>err_message = ''Connection Closed'', err_code = Some 428\<rparr>\<rparr>"
    using s(2-6) rest unfolding w by (cases snap) simp
  show ?thesis using a w(1) t cl s(1) full unfolding w by simp
qed

end
